theory Spec2Isabelle
  imports Complex_Main "HOL-Library.Word"
begin

section \<open>Particle Morph: the particle engine and the shape samplers of App.tsx\<close>

text \<open>
  The development embeds \<^verbatim>\<open>src/src/App.tsx\<close>. JavaScript numbers are modelled as
  real numbers (an idealisation: rounding of IEEE doubles is not modelled), loop counters
  and pixel dimensions as natural numbers, a string as the list of its UTF-16 code
  units. \<^verbatim>\<open>Math.random()\<close> is modelled by the sequence
  \<open>rnd :: nat \<Rightarrow> real\<close> of the draws a call makes, in order; its contract (every draw
  lies in \<open>[0, 1)\<close>) is the predicate \<open>random_source\<close>. An exception is a value of the
  type \<open>error\<close>.
\<close>

subsection \<open>Constants\<close>

definition PARTICLE_COUNT :: nat where
  "PARTICLE_COUNT = 2800"

definition HEART_SCALE :: real where
  "HEART_SCALE = 14"

definition BASE_TEXT_SIZE :: real where
  "BASE_TEXT_SIZE = 150"

definition MOUSE_RADIUS :: real where
  "MOUSE_RADIUS = 100"

definition COLORS :: "string list" where
  "COLORS = [''#ff2d55'', ''#ff375f'', ''#ff1744'', ''#f50057'', ''#d500f9'']"

definition random_source :: "(nat \<Rightarrow> real) \<Rightarrow> bool" where
  "random_source rnd = (\<forall>k. 0 \<le> rnd k \<and> rnd k < 1)"

subsection \<open>Types\<close>

record point =
  pt_x :: real
  pt_y :: real

text \<open>
  The class \<^verbatim>\<open>Particle\<close>. The fields \<^verbatim>\<open>x\<close>, \<^verbatim>\<open>y\<close> and \<^verbatim>\<open>size\<close> are named
  \<open>pos_x\<close>, \<open>pos_y\<close> and \<open>psize\<close>. A colour is \<open>None\<close> when the palette lookup is
  \<^verbatim>\<open>undefined\<close>.
\<close>

record particle =
  pos_x :: real
  pos_y :: real
  targetX :: real
  targetY :: real
  vx :: real
  vy :: real
  psize :: real
  baseSize :: real
  friction :: real
  ease :: real
  color :: "string option"
  opacity :: real
  twinkleSpeed :: real

subsection \<open>The constructor\<close>

text \<open>
  \<^verbatim>\<open>new Particle(x, y)\<close> reads \<^verbatim>\<open>window.innerWidth\<close>, \<^verbatim>\<open>window.innerHeight\<close> and nine
  draws of \<^verbatim>\<open>Math.random()\<close>, in the order of the assignments; the draws are
  \<open>rnd k, ..., rnd (k + 8)\<close>.
\<close>

definition lookup_color :: "real \<Rightarrow> string option" where
  "lookup_color r =
     (let i = \<lfloor>r * real (length COLORS)\<rfloor>
      in if 0 \<le> i \<and> i < int (length COLORS) then Some (COLORS ! nat i) else None)"

definition Particle :: "(nat \<Rightarrow> real) \<Rightarrow> nat \<Rightarrow> nat \<Rightarrow> nat \<Rightarrow> real \<Rightarrow> real \<Rightarrow> particle" where
  "Particle rnd k innerWidth innerHeight x y =
     (let bs = rnd (k + 4) * 1.5 + 0.8
      in \<lparr> pos_x = rnd k * real innerWidth,
           pos_y = rnd (k + 1) * real innerHeight,
           targetX = x,
           targetY = y,
           vx = (rnd (k + 2) - 0.5) * 10,
           vy = (rnd (k + 3) - 0.5) * 10,
           psize = bs,
           baseSize = bs,
           friction = 0.9,
           ease = 0.05 + rnd (k + 5) * 0.05,
           color = lookup_color (rnd (k + 6)),
           opacity = rnd (k + 7),
           twinkleSpeed = 0.01 + rnd (k + 8) * 0.02 \<rparr>)"

subsection \<open>The per-tick update\<close>

text \<open>
  \<^verbatim>\<open>Math.atan2(y, x)\<close>, by the usual case analysis on the quadrant (signed zeros are not
  modelled; \<^verbatim>\<open>atan2(0, 0)\<close> is \<open>0\<close>).
\<close>

definition atan2 :: "real \<Rightarrow> real \<Rightarrow> real" where
  "atan2 y x =
     (if 0 < x then arctan (y / x)
      else if x < 0 then (if 0 \<le> y then arctan (y / x) + pi else arctan (y / x) - pi)
      else if 0 < y then pi / 2
      else if y < 0 then - (pi / 2)
      else 0)"

text \<open>
  \<^verbatim>\<open>Particle.update(mouseX, mouseY)\<close>: the method mutates the particle; the model passes
  the particle through the assignments in source order and returns it.
\<close>

definition update :: "particle \<Rightarrow> real \<Rightarrow> real \<Rightarrow> particle" where
  "update p mouseX mouseY =
     (let dx = targetX p - pos_x p;
          dy = targetY p - pos_y p;
          p1 = p\<lparr>vx := vx p + dx * ease p, vy := vy p + dy * ease p\<rparr>;
          mdx = pos_x p1 - mouseX;
          mdy = pos_y p1 - mouseY;
          distSq = mdx * mdx + mdy * mdy;
          radiusSq = MOUSE_RADIUS * MOUSE_RADIUS;
          p2 = (if distSq < radiusSq
                then (let dist = sqrt distSq;
                          force = (MOUSE_RADIUS - dist) / MOUSE_RADIUS;
                          angle = atan2 mdy mdx;
                          push = force * 15
                      in p1\<lparr>vx := vx p1 + cos angle * push, vy := vy p1 + sin angle * push\<rparr>)
                else p1);
          p3 = p2\<lparr>vx := vx p2 * friction p2, vy := vy p2 * friction p2\<rparr>;
          p4 = p3\<lparr>pos_x := pos_x p3 + vx p3, pos_y := pos_y p3 + vy p3\<rparr>;
          p5 = p4\<lparr>opacity := opacity p4 + twinkleSpeed p4\<rparr>
      in if opacity p5 > 1 \<or> opacity p5 < 0.4
         then p5\<lparr>twinkleSpeed := twinkleSpeed p5 * (- 1)\<rparr>
         else p5)"

text \<open>A run of ticks: one \<open>update\<close> per mouse position of the list, first to last.\<close>

fun ticks :: "particle \<Rightarrow> (real \<times> real) list \<Rightarrow> particle" where
  "ticks p [] = p"
| "ticks p (m # ms) = ticks (update p (fst m) (snd m)) ms"

subsection \<open>The browser, as far as the samplers see it\<close>

text \<open>
  The browser is not code of the repository; a call sees it through this record:
  the window's inner size, whether \<^verbatim>\<open>getContext('2d')\<close> of a fresh canvas is non-null,
  the engine's \<^verbatim>\<open>String.prototype.toUpperCase\<close> (the Unicode case mapping),
  the image data that \<^verbatim>\<open>clearRect\<close>, \<^verbatim>\<open>fillText\<close> and \<^verbatim>\<open>getImageData\<close> produce for a
  font size, a text and a canvas size (RGBA bytes, row by row), and the draws that
  \<^verbatim>\<open>Math.random()\<close> returns during the call, in order.
\<close>

type_synonym jsstring = "16 word list"

record browser =
  innerWidth :: nat
  innerHeight :: nat
  getContext2d :: bool
  toUpperCase :: "jsstring \<Rightarrow> jsstring"
  fillText :: "real \<Rightarrow> jsstring \<Rightarrow> nat \<Rightarrow> nat \<Rightarrow> nat list"
  random :: "nat \<Rightarrow> real"

datatype error = TypeError | IndexSizeError

text \<open>
  \<^verbatim>\<open>String.prototype.trim\<close> removes the white space and the line terminators of
  ECMAScript from both ends: U+0009 to U+000D, U+0020, U+00A0, U+1680, U+2000 to U+200A,
  U+2028, U+2029, U+202F, U+205F, U+3000 and U+FEFF, each one code unit.
\<close>

definition isWhiteSpace :: "16 word \<Rightarrow> bool" where
  "isWhiteSpace c =
     (c \<in> {9, 10, 11, 12, 13, 32, 160, 5760, 8232, 8233, 8239, 8287, 12288, 65279}
      \<or> (8192 \<le> c \<and> c \<le> 8202))"

definition trim :: "jsstring \<Rightarrow> jsstring" where
  "trim s = rev (dropWhile isWhiteSpace (rev (dropWhile isWhiteSpace s)))"

subsection \<open>Heart sampling\<close>

text \<open>
  \<^verbatim>\<open>getHeartPoints(width, height)\<close>: the loop pushes one point per iteration; iteration
  \<open>i\<close> uses the draw \<open>rnd i\<close>.
\<close>

definition heartPoint :: "real \<Rightarrow> nat \<Rightarrow> nat \<Rightarrow> point" where
  "heartPoint r width height =
     (let t = r * pi * 2;
          x = 16 * sin t ^ 3;
          y = - (13 * cos t - 5 * cos (2 * t) - 2 * cos (3 * t) - cos (4 * t))
      in \<lparr> pt_x = real width / 2 + x * HEART_SCALE,
           pt_y = real height / 2 + y * HEART_SCALE \<rparr>)"

function heart_loop :: "(nat \<Rightarrow> real) \<Rightarrow> nat \<Rightarrow> nat \<Rightarrow> nat \<Rightarrow> point list \<Rightarrow> point list" where
  "heart_loop rnd width height i points =
     (if i < PARTICLE_COUNT
      then heart_loop rnd width height (i + 1) (points @ [heartPoint (rnd i) width height])
      else points)"
  by pat_completeness auto
termination
  by (relation "measure (\<lambda>(rnd, width, height, i, points). PARTICLE_COUNT - i)") auto

definition getHeartPoints :: "(nat \<Rightarrow> real) \<Rightarrow> nat \<Rightarrow> nat \<Rightarrow> point list" where
  "getHeartPoints rnd width height = heart_loop rnd width height 0 []"

subsection \<open>Text sampling\<close>

text \<open>
  The state of the raster scan: the candidate points and the running bounding box.
\<close>

record scan =
  sampledPoints :: "point list"
  minX :: real
  maxX :: real
  minY :: real
  maxY :: real

definition step :: nat where
  "step = 2"

text \<open>
  \<^verbatim>\<open>imageData[i] > 128\<close>; a read past the end of the array is \<^verbatim>\<open>undefined\<close>, and the
  comparison is then false.
\<close>

definition covered :: "nat list \<Rightarrow> nat \<Rightarrow> bool" where
  "covered imageData i = (i < length imageData \<and> imageData ! i > 128)"

definition collect :: "nat \<Rightarrow> nat \<Rightarrow> scan \<Rightarrow> scan" where
  "collect x y s =
     (let s1 = s\<lparr>sampledPoints := sampledPoints s @ [\<lparr>pt_x = real x, pt_y = real y\<rparr>]\<rparr>;
          s2 = (if real x < minX s1 then s1\<lparr>minX := real x\<rparr> else s1);
          s3 = (if real x > maxX s2 then s2\<lparr>maxX := real x\<rparr> else s2);
          s4 = (if real y < minY s3 then s3\<lparr>minY := real y\<rparr> else s3)
      in if real y > maxY s4 then s4\<lparr>maxY := real y\<rparr> else s4)"

function scan_x :: "nat list \<Rightarrow> nat \<Rightarrow> nat \<Rightarrow> nat \<Rightarrow> scan \<Rightarrow> scan" where
  "scan_x imageData width y x s =
     (if x < width
      then scan_x imageData width y (x + step)
             (let index = (y * width + x) * 4
              in if covered imageData (index + 3) then collect x y s else s)
      else s)"
  by pat_completeness auto
termination
  by (relation "measure (\<lambda>(imageData, width, y, x, s). width - x)") (auto simp: step_def)

function scan_y :: "nat list \<Rightarrow> nat \<Rightarrow> nat \<Rightarrow> nat \<Rightarrow> scan \<Rightarrow> scan" where
  "scan_y imageData width height y s =
     (if y < height
      then scan_y imageData width height (y + step) (scan_x imageData width y 0 s)
      else s)"
  by pat_completeness auto
termination
  by (relation "measure (\<lambda>(imageData, width, height, y, s). height - y)") (auto simp: step_def)

text \<open>
  The font size, the image data of the rendered text, its scan, and the centring
  offsets, as \<^verbatim>\<open>getTextPoints\<close> computes them.
\<close>

definition fontSize :: "jsstring \<Rightarrow> nat \<Rightarrow> real" where
  "fontSize text width =
     min BASE_TEXT_SIZE
       ((real width / real (if length text = 0 then 1 else length text)) * 1.4)"

definition imageData :: "browser \<Rightarrow> jsstring \<Rightarrow> nat \<Rightarrow> nat \<Rightarrow> nat list" where
  "imageData b text width height =
     fillText b (fontSize text width) (toUpperCase b text) width height"

definition rasterScan :: "browser \<Rightarrow> jsstring \<Rightarrow> nat \<Rightarrow> nat \<Rightarrow> scan" where
  "rasterScan b text width height =
     scan_y (imageData b text width height) width height 0
       \<lparr> sampledPoints = [], minX = real width, maxX = 0, minY = real height, maxY = 0 \<rparr>"

definition offsetX :: "scan \<Rightarrow> nat \<Rightarrow> real" where
  "offsetX s width = (let textWidth = maxX s - minX s in (real width - textWidth) / 2 - minX s)"

definition offsetY :: "scan \<Rightarrow> nat \<Rightarrow> real" where
  "offsetY s height = (let textHeight = maxY s - minY s in (real height - textHeight) / 2 - minY s)"

text \<open>
  The sampling loop: iteration \<open>i\<close> uses the draws \<open>rnd (3 * i)\<close> (the index),
  \<open>rnd (3 * i + 1)\<close> and \<open>rnd (3 * i + 2)\<close> (the jitter). An index outside the
  candidate array reads \<^verbatim>\<open>undefined\<close>, and \<^verbatim>\<open>p.x\<close> then throws a TypeError.
\<close>

function sample_loop ::
  "(nat \<Rightarrow> real) \<Rightarrow> point list \<Rightarrow> real \<Rightarrow> real \<Rightarrow> nat \<Rightarrow> point list \<Rightarrow> error + point list" where
  "sample_loop rnd sp offX offY i result =
     (if i < PARTICLE_COUNT
      then (let randomIndex = \<lfloor>rnd (3 * i) * real (length sp)\<rfloor>
            in if 0 \<le> randomIndex \<and> randomIndex < int (length sp)
               then sample_loop rnd sp offX offY (i + 1)
                      (result @
                        [\<lparr> pt_x = pt_x (sp ! nat randomIndex) + offX + (rnd (3 * i + 1) - 0.5) * 1.5,
                           pt_y = pt_y (sp ! nat randomIndex) + offY + (rnd (3 * i + 2) - 0.5) * 1.5 \<rparr>])
               else Inl TypeError)
      else Inr result)"
  by pat_completeness auto
termination
  by (relation "measure (\<lambda>(rnd, sp, offX, offY, i, result). PARTICLE_COUNT - i)") auto

text \<open>
  \<^verbatim>\<open>getTextPoints(text, width, height)\<close>. Without a 2D context it returns the empty
  array. \<^verbatim>\<open>getImageData\<close> throws an IndexSizeError for an empty rectangle.
\<close>

definition getTextPoints :: "browser \<Rightarrow> jsstring \<Rightarrow> nat \<Rightarrow> nat \<Rightarrow> error + point list" where
  "getTextPoints b text width height =
     (if \<not> getContext2d b then Inr []
      else if width = 0 \<or> height = 0 then Inl IndexSizeError
      else (let s = rasterScan b text width height
            in if length (sampledPoints s) = 0
               then Inr (getHeartPoints (random b) width height)
               else sample_loop (random b) (sampledPoints s)
                      (offsetX s width) (offsetY s height) 0 []))"

subsection \<open>The particle field and retargeting\<close>

record app =
  particles :: "particle list"
  canvas_width :: nat
  canvas_height :: nat
  canvasRef_current :: bool

text \<open>
  The target points \<^verbatim>\<open>updateTargets\<close> asks for: the heart for a text that trims to
  the empty string, the text's points otherwise.
\<close>

definition newPoints :: "browser \<Rightarrow> jsstring \<Rightarrow> nat \<Rightarrow> nat \<Rightarrow> error + point list" where
  "newPoints b text width height =
     (if trim text = [] then Inr (getHeartPoints (random b) width height)
      else getTextPoints b text width height)"

text \<open>
  \<^verbatim>\<open>particles.current.forEach((p, i) => ...)\<close>: particle \<open>i\<close> takes the point \<open>i\<close>;
  where the array of points has no entry \<open>i\<close>, \<^verbatim>\<open>newPoints[i].x\<close> throws a TypeError,
  and the particles assigned so far keep their new targets.
\<close>

fun forEach_retarget :: "point list \<Rightarrow> nat \<Rightarrow> particle list \<Rightarrow> particle list \<times> error option" where
  "forEach_retarget nps i [] = ([], None)"
| "forEach_retarget nps i (p # ps) =
     (if i < length nps
      then (let p' = p\<lparr>targetX := pt_x (nps ! i), targetY := pt_y (nps ! i)\<rparr>;
                r = forEach_retarget nps (i + 1) ps
            in (p' # fst r, snd r))
      else (p # ps, Some TypeError))"

definition updateTargets :: "browser \<Rightarrow> jsstring \<Rightarrow> app \<Rightarrow> app \<times> error option" where
  "updateTargets b text st =
     (if \<not> canvasRef_current st then (st, None)
      else (case newPoints b text (canvas_width st) (canvas_height st) of
              Inl e \<Rightarrow> (st, Some e)
            | Inr nps \<Rightarrow>
                (let r = forEach_retarget nps 0 (particles st)
                 in (st\<lparr>particles := fst r\<rparr>, snd r))))"

text \<open>
  \<^verbatim>\<open>handleResize\<close>: an empty field is created from the heart (the constructor of
  particle \<open>i\<close> draws after the sampler's draws), an existing one is retargeted.
\<close>

definition handleResize :: "browser \<Rightarrow> jsstring \<Rightarrow> app \<Rightarrow> app \<times> error option" where
  "handleResize b text st =
     (let st1 = st\<lparr>canvas_width := innerWidth b, canvas_height := innerHeight b\<rparr>
      in if length (particles st1) = 0
         then (let initialPoints = getHeartPoints (random b) (canvas_width st1) (canvas_height st1)
               in (st1\<lparr>particles :=
                        map (\<lambda>(i, p). Particle (random b) (PARTICLE_COUNT + 9 * i)
                                         (innerWidth b) (innerHeight b) (pt_x p) (pt_y p))
                            (enumerate 0 initialPoints)\<rparr>, None))
         else updateTargets b text st1)"

text \<open>
  A retargeting event is a call of \<^verbatim>\<open>handleResize\<close> (the resize listener, or the effect
  that runs again when the text changes) with the browser and the text of that moment;
  an exception ends the handler, not the application.
\<close>

fun retargets :: "app \<Rightarrow> (browser \<times> jsstring) list \<Rightarrow> app" where
  "retargets st [] = st"
| "retargets st (ev # evs) = retargets (fst (handleResize (fst ev) (snd ev) st)) evs"

text \<open>
  \<^verbatim>\<open>animate\<close>, one frame: every particle is updated with the mouse position of that
  frame. The calls that paint (\<^verbatim>\<open>fillRect\<close>, \<^verbatim>\<open>draw\<close>) write to the canvas only and
  are left out. A frame runs in the browser of its moment, as a handler does.
\<close>

definition animate :: "browser \<Rightarrow> real \<times> real \<Rightarrow> app \<Rightarrow> app" where
  "animate b mouse st =
     st\<lparr>particles := map (\<lambda>p. update p (fst mouse) (snd mouse)) (particles st)\<rparr>"

text \<open>
  What happens to the field: retargeting events and frames, each in the browser of its
  moment, in the order they come.
\<close>

datatype event = Retarget jsstring | Frame "real \<times> real"

fun exec :: "browser \<Rightarrow> event \<Rightarrow> app \<Rightarrow> app" where
  "exec b (Retarget text) st = fst (handleResize b text st)"
| "exec b (Frame mouse) st = animate b mouse st"

fun run :: "app \<Rightarrow> (browser \<times> event) list \<Rightarrow> app" where
  "run st [] = st"
| "run st (be # bes) = run (exec (fst be) (snd be) st) bes"

subsection \<open>The steps of a tick, in the spec's words\<close>

text \<open>
  The five steps the specification gives for a tick, each a function of its own; the
  theorems compare their composition with \<open>update\<close>.
\<close>

text \<open>Spring-to-target: velocity += (target - position) * ease.\<close>

definition spring :: "particle \<Rightarrow> particle" where
  "spring p = p\<lparr>vx := vx p + (targetX p - pos_x p) * ease p,
               vy := vy p + (targetY p - pos_y p) * ease p\<rparr>"

text \<open>
  The unit vector in the direction \<open>(a, b)\<close>, from the mouse to the particle; where the
  two coincide there is no such direction, and the vector is \<open>(1, 0)\<close>.
\<close>

definition away :: "real \<Rightarrow> real \<Rightarrow> real \<times> real" where
  "away a b =
     (if a = 0 \<and> b = 0 then (1, 0)
      else (a / sqrt (a * a + b * b), b / sqrt (a * a + b * b)))"

text \<open>
  Mouse repulsion: within the radius (squared distance below \<open>MOUSE_RADIUS\<^sup>2\<close>), an
  impulse away from the mouse of magnitude \<open>(MOUSE_RADIUS - dist) / MOUSE_RADIUS\<close> times
  the push strength 15; none at or beyond the radius.
\<close>

definition impulse :: "particle \<Rightarrow> real \<Rightarrow> real \<Rightarrow> real \<times> real" where
  "impulse p mx my =
     (let a = pos_x p - mx; b = pos_y p - my; d = sqrt (a * a + b * b)
      in if a * a + b * b < MOUSE_RADIUS * MOUSE_RADIUS
         then ((MOUSE_RADIUS - d) / MOUSE_RADIUS * 15 * fst (away a b),
               (MOUSE_RADIUS - d) / MOUSE_RADIUS * 15 * snd (away a b))
         else (0, 0))"

definition repel :: "real \<Rightarrow> real \<Rightarrow> particle \<Rightarrow> particle" where
  "repel mx my p = p\<lparr>vx := vx p + fst (impulse p mx my), vy := vy p + snd (impulse p mx my)\<rparr>"

text \<open>Damping: velocity *= friction.\<close>

definition damp :: "particle \<Rightarrow> particle" where
  "damp p = p\<lparr>vx := vx p * friction p, vy := vy p * friction p\<rparr>"

text \<open>Integration: position += velocity.\<close>

definition integrate :: "particle \<Rightarrow> particle" where
  "integrate p = p\<lparr>pos_x := pos_x p + vx p, pos_y := pos_y p + vy p\<rparr>"

text \<open>Twinkle: opacity += twinkleSpeed; outside \<open>[0.4, 1]\<close> the speed is negated.\<close>

definition twinkle :: "particle \<Rightarrow> particle" where
  "twinkle p =
     (if opacity p + twinkleSpeed p > 1 \<or> opacity p + twinkleSpeed p < 0.4
      then p\<lparr>opacity := opacity p + twinkleSpeed p, twinkleSpeed := - twinkleSpeed p\<rparr>
      else p\<lparr>opacity := opacity p + twinkleSpeed p\<rparr>)"

definition steps :: "particle \<Rightarrow> real \<Rightarrow> real \<Rightarrow> particle" where
  "steps p mx my = twinkle (integrate (damp (repel mx my (spring p))))"

subsection \<open>Notions the statements use\<close>

text \<open>
  The fields the physics of a tick reads and writes: everything but the visual size and
  the colour.
\<close>

definition dynamics :: "particle \<Rightarrow> real list" where
  "dynamics p = [pos_x p, pos_y p, vx p, vy p, targetX p, targetY p, ease p, friction p,
                 opacity p, twinkleSpeed p]"

text \<open>
  Two steps of a run that differ at most in the browser of a frame (its random draws
  included): the same event, and for a retargeting event the same browser.
\<close>

definition agree :: "browser \<times> event \<Rightarrow> browser \<times> event \<Rightarrow> bool" where
  "agree x y =
     (snd x = snd y \<and> (case snd x of Retarget text \<Rightarrow> fst x = fst y | Frame mouse \<Rightarrow> True))"

text \<open>A particle with its target erased: what retargeting must leave alone.\<close>

definition without_target :: "particle \<Rightarrow> particle" where
  "without_target p = p\<lparr>targetX := 0, targetY := 0\<rparr>"

text \<open>A point outside the viewport of the given width and height.\<close>

definition outside :: "nat \<Rightarrow> nat \<Rightarrow> point \<Rightarrow> bool" where
  "outside w h p = (pt_x p < 0 \<or> real w < pt_x p \<or> pt_y p < 0 \<or> real h < pt_y p)"

text \<open>
  The twinkle band, with the overshoot of one tick: the opacity is in \<open>[0.4, 1]\<close>, or
  it has just left it by at most one step and the speed points back.
\<close>

definition in_band :: "particle \<Rightarrow> bool" where
  "in_band p =
     (\<bar>twinkleSpeed p\<bar> \<le> 3 / 100
      \<and> ((4 / 10 \<le> opacity p \<and> opacity p \<le> 1)
         \<or> (opacity p < 4 / 10 \<and> 4 / 10 - twinkleSpeed p \<le> opacity p \<and> 0 < twinkleSpeed p)
         \<or> (1 < opacity p \<and> opacity p \<le> 1 - twinkleSpeed p \<and> twinkleSpeed p < 0)))"

text \<open>
  The invariant of the raster scan: the candidates lie on the canvas, and the running
  bounding box is their bounding box (with the initial values while there is none).
\<close>

definition bbox_inv :: "nat \<Rightarrow> nat \<Rightarrow> scan \<Rightarrow> bool" where
  "bbox_inv w h s =
     ((\<forall>p\<in>set (sampledPoints s). pt_x p < real w \<and> pt_y p < real h \<and> 0 \<le> pt_x p \<and> 0 \<le> pt_y p)
      \<and> minX s = Min (insert (real w) (pt_x ` set (sampledPoints s)))
      \<and> maxX s = Max (insert 0 (pt_x ` set (sampledPoints s)))
      \<and> minY s = Min (insert (real h) (pt_y ` set (sampledPoints s)))
      \<and> maxY s = Max (insert 0 (pt_y ` set (sampledPoints s))))"

text \<open>
  The candidate set after the centring offset and before the jitter, its centroid, and
  the midpoint of its bounding box.
\<close>

definition shift :: "real \<Rightarrow> real \<Rightarrow> point list \<Rightarrow> point list" where
  "shift ox oy ps = map (\<lambda>p. \<lparr>pt_x = pt_x p + ox, pt_y = pt_y p + oy\<rparr>) ps"

definition candidates :: "browser \<Rightarrow> jsstring \<Rightarrow> nat \<Rightarrow> nat \<Rightarrow> point list" where
  "candidates b text w h =
     (let s = rasterScan b text w h in shift (offsetX s w) (offsetY s h) (sampledPoints s))"

definition centroid_x :: "point list \<Rightarrow> real" where
  "centroid_x ps = sum_list (map pt_x ps) / real (length ps)"

definition box_mid_x :: "point list \<Rightarrow> real" where
  "box_mid_x ps = (Min (pt_x ` set ps) + Max (pt_x ` set ps)) / 2"

definition box_mid_y :: "point list \<Rightarrow> real" where
  "box_mid_y ps = (Min (pt_y ` set ps) + Max (pt_y ` set ps)) / 2"

text \<open>
  For the damped spring: the squared distance to the target, the squared speed, and a
  quadratic energy of displacement \<open>d\<close> and velocity \<open>v\<close> per axis (\<open>f\<close> the friction,
  \<open>e\<close> the ease).
\<close>

definition axis_energy :: "real \<Rightarrow> real \<Rightarrow> real \<Rightarrow> real \<Rightarrow> real" where
  "axis_energy f e d v = f * e * d\<^sup>2 + (1 - f - f * e) * d * v + f * v\<^sup>2"

definition energy :: "particle \<Rightarrow> real" where
  "energy p = axis_energy (friction p) (ease p) (pos_x p - targetX p) (vx p)
            + axis_energy (friction p) (ease p) (pos_y p - targetY p) (vy p)"

definition targetDistSq :: "particle \<Rightarrow> real" where
  "targetDistSq p = (pos_x p - targetX p)\<^sup>2 + (pos_y p - targetY p)\<^sup>2"

definition speedSq :: "particle \<Rightarrow> real" where
  "speedSq p = (vx p)\<^sup>2 + (vy p)\<^sup>2"

text \<open>
  The mouse is at or beyond the interaction radius at every tick of the run (the test of
  \<open>update\<close>, on the position at the start of the tick).
\<close>

fun quiet :: "particle \<Rightarrow> (real \<times> real) list \<Rightarrow> bool" where
  "quiet p [] = True"
| "quiet p (m # ms) =
     (\<not> (pos_x p - fst m) * (pos_x p - fst m) + (pos_y p - snd m) * (pos_y p - snd m)
          < MOUSE_RADIUS * MOUSE_RADIUS
      \<and> quiet (update p (fst m) (snd m)) ms)"

text \<open>
  A tick without the mouse, and a run of such ticks that gives up when the mouse comes
  within the radius: they need no square root and evaluate on rationals.
\<close>

definition drift :: "particle \<Rightarrow> particle" where
  "drift p = twinkle (integrate (damp (spring p)))"

fun drifts :: "particle \<Rightarrow> (real \<times> real) list \<Rightarrow> particle option" where
  "drifts p [] = Some p"
| "drifts p (m # ms) =
     (if (pos_x p - fst m) * (pos_x p - fst m) + (pos_y p - snd m) * (pos_y p - snd m)
          < MOUSE_RADIUS * MOUSE_RADIUS
      then None else drifts (drift p) ms)"

subsection \<open>Concrete inputs\<close>

definition particle0 :: particle where
  "particle0 = \<lparr> pos_x = 10, pos_y = 20, targetX = 0, targetY = 0, vx = 1, vy = 2, psize = 1,
       baseSize = 1, friction = 0.9, ease = 0.05, color = Some ''#ff2d55'', opacity = 0.5,
       twinkleSpeed = 0.01 \<rparr>"

text \<open>The texts "A", "Hi" and "L.", and the empty text.\<close>

definition text_A :: jsstring where
  "text_A = [65]"

definition text_Hi :: jsstring where
  "text_Hi = [72, 105]"

definition text_L :: jsstring where
  "text_L = [76, 46]"

definition text_empty :: jsstring where
  "text_empty = []"

text \<open>A browser that hands out no 2D context, one that renders every text blank, and one
  that fills the whole canvas.\<close>

definition no_context :: browser where
  "no_context = \<lparr> innerWidth = 4, innerHeight = 2, getContext2d = False, toUpperCase = (\<lambda>s. s),
       fillText = (\<lambda>fs t w h. []), random = (\<lambda>k. 0) \<rparr>"

definition blank_browser :: browser where
  "blank_browser = \<lparr> innerWidth = 3, innerHeight = 3, getContext2d = True, toUpperCase = (\<lambda>s. s),
       fillText = (\<lambda>fs t w h. replicate (4 * w * h) 0), random = (\<lambda>k. 0) \<rparr>"

definition solid_browser :: browser where
  "solid_browser = \<lparr> innerWidth = 3, innerHeight = 3, getContext2d = True, toUpperCase = (\<lambda>s. s),
       fillText = (\<lambda>fs t w h. replicate (4 * w * h) 255), random = (\<lambda>k. 1 / 2) \<rparr>"

text \<open>A browser that renders every text as four pixels at the left and one at the right of
  the first row.\<close>

definition lopsided_browser :: browser where
  "lopsided_browser = \<lparr> innerWidth = 40, innerHeight = 2, getContext2d = True, toUpperCase = (\<lambda>s. s),
       fillText = (\<lambda>fs t w h. (replicate (4 * w * h) 0)[3 := 255, 11 := 255, 19 := 255, 27 := 255, 155 := 255]),
       random = (\<lambda>k. 0) \<rparr>"

text \<open>The mouse position that stands for no pointer, and a particle at rest 100 pixels to
  the right of its target.\<close>

definition far :: "real \<times> real" where
  "far = (- 1000, - 1000)"

definition resting :: particle where
  "resting = \<lparr> pos_x = 500, pos_y = 300, targetX = 400, targetY = 300, vx = 0, vy = 0,
       psize = 1, baseSize = 1, friction = 0.9, ease = 0.05, color = Some ''#ff2d55'',
       opacity = 0.5, twinkleSpeed = 0.01 \<rparr>"

definition field0 :: app where
  "field0 = \<lparr> particles = [particle0], canvas_width = 1, canvas_height = 1,
       canvasRef_current = True \<rparr>"

section \<open>Properties\<close>

text \<open>
  The loops are unfolded where a proof says so, by \<open>subst\<close> or with their equations
  given to the simplifier.
\<close>

declare heart_loop.simps [simp del] scan_x.simps [simp del] scan_y.simps [simp del]
  sample_loop.simps [simp del]

subsection \<open>The heart sampler as a map over the draws\<close>

lemma heart_loop_eq:
  "heart_loop rnd w h i pts = pts @ map (\<lambda>j. heartPoint (rnd j) w h) [i..<PARTICLE_COUNT]"
proof (induction rnd w h i pts rule: heart_loop.induct)
  case (1 rnd w h i pts)
  show ?case
  proof (cases "i < PARTICLE_COUNT")
    case True
    then have "[i..<PARTICLE_COUNT] = i # [i + 1..<PARTICLE_COUNT]"
      by (simp add: upt_conv_Cons)
    with True 1 show ?thesis
      by (simp add: heart_loop.simps[of rnd w h i pts])
  next
    case False
    then show ?thesis by (simp add: heart_loop.simps[of rnd w h i pts])
  qed
qed

lemma getHeartPoints_eq:
  "getHeartPoints rnd w h = map (\<lambda>j. heartPoint (rnd j) w h) [0..<PARTICLE_COUNT]"
  by (simp add: getHeartPoints_def heart_loop_eq)

lemma length_getHeartPoints: "length (getHeartPoints rnd w h) = PARTICLE_COUNT"
  by (simp add: getHeartPoints_eq)

subsection \<open>The number of target points\<close>

lemma floor_index:
  assumes "0 \<le> r" "r < 1" "0 < n"
  shows "0 \<le> \<lfloor>r * real n\<rfloor> \<and> \<lfloor>r * real n\<rfloor> < int n"
proof -
  have "r * real n < real n" using assms by simp
  then have "\<lfloor>r * real n\<rfloor> < int n" by (simp add: floor_less_iff)
  moreover have "0 \<le> r * real n" using assms by simp
  ultimately show ?thesis by simp
qed

lemma sample_loop_length:
  assumes "random_source rnd" "sp \<noteq> []"
  shows "\<exists>pts. sample_loop rnd sp ox oy i res = Inr pts
           \<and> length pts = length res + (PARTICLE_COUNT - i)"
  using assms
proof (induction rnd sp ox oy i res rule: sample_loop.induct)
  case (1 rnd sp ox oy i res)
  show ?case
  proof (cases "i < PARTICLE_COUNT")
    case True
    have idx: "0 \<le> \<lfloor>rnd (3 * i) * real (length sp)\<rfloor>
        \<and> \<lfloor>rnd (3 * i) * real (length sp)\<rfloor> < int (length sp)"
      using 1(2,3) by (intro floor_index) (auto simp: random_source_def)
    from 1(1)[OF True refl _ 1(2,3)] idx True
    show ?thesis
      by (subst sample_loop.simps) (auto simp: Let_def)
  next
    case False
    then show ?thesis by (subst sample_loop.simps) simp
  qed
qed

text \<open>
  Claim C1, as amended. Where the off-screen canvas yields a 2D context and
  \<^verbatim>\<open>Math.random()\<close> keeps its contract, the shape sampler (the heart for a text that
  trims to nothing, the text's points otherwise) returns exactly \<open>PARTICLE_COUNT = 2800\<close>
  points for every text and every viewport of at least 1 x 1 pixels. Where there is no
  2D context, \<^verbatim>\<open>getTextPoints\<close> returns the empty array, whatever the text and the
  viewport.
\<close>

theorem sampler_count:
  assumes "getContext2d b" "random_source (random b)" "1 \<le> w" "1 \<le> h"
  shows "(\<exists>pts. newPoints b text w h = Inr pts \<and> length pts = PARTICLE_COUNT
           \<and> PARTICLE_COUNT = 2800)
       \<and> (\<not> getContext2d b' \<longrightarrow> getTextPoints b' text' w' h' = Inr [])"
proof -
  have "\<exists>pts. newPoints b text w h = Inr pts \<and> length pts = PARTICLE_COUNT
           \<and> PARTICLE_COUNT = 2800"
  proof (cases "trim text = []")
    case True
    then show ?thesis by (simp add: newPoints_def length_getHeartPoints PARTICLE_COUNT_def)
  next
    case False
    show ?thesis
    proof (cases "sampledPoints (rasterScan b text w h) = []")
      case True
      with False assms show ?thesis
        by (simp add: newPoints_def getTextPoints_def length_getHeartPoints PARTICLE_COUNT_def)
    next
      case ne: False
      from sample_loop_length[OF assms(2) ne,
          of "offsetX (rasterScan b text w h) w" "offsetY (rasterScan b text w h) h" 0 "[]"]
      show ?thesis using False ne assms
        by (auto simp add: newPoints_def getTextPoints_def Let_def PARTICLE_COUNT_def)
    qed
  qed
  moreover have "\<not> getContext2d b' \<longrightarrow> getTextPoints b' text' w' h' = Inr []"
    by (simp add: getTextPoints_def)
  ultimately show ?thesis by (rule conjI)
qed

theorem sampler_count_witness:
  "(\<exists>pts. newPoints solid_browser text_Hi 3 3 = Inr pts \<and> length pts = PARTICLE_COUNT
     \<and> PARTICLE_COUNT = 2800)
   \<and> getTextPoints no_context text_Hi 3 3 = Inr []"
  using sampler_count[of solid_browser 3 3 text_Hi no_context text_Hi 3 3]
  by (simp add: solid_browser_def no_context_def random_source_def)

text \<open>
  Claim C1 as stated fails: without a 2D context \<^verbatim>\<open>getTextPoints\<close> returns the empty
  array, for a non-empty text and a 1 x 1 viewport.
\<close>

theorem sampler_count_counterexample:
  "newPoints no_context text_A 1 1 = Inr []"
  by (simp add: newPoints_def getTextPoints_def trim_def isWhiteSpace_def no_context_def
      text_A_def)

subsection \<open>The heart as the fallback of the text sampler\<close>

lemma scan_x_blank:
  assumes "even x"
    and "\<forall>x'. x \<le> x' \<and> x' < w \<and> even x' \<longrightarrow> \<not> covered img ((y * w + x') * 4 + 3)"
  shows "scan_x img w y x s = s"
  using assms
proof (induction img w y x s rule: scan_x.induct)
  case (1 img w y x s)
  show ?case
  proof (cases "x < w")
    case True
    with 1(2,3) have nc: "\<not> covered img ((y * w + x) * 4 + 3)" by simp
    have "scan_x img w y (x + step) s = s"
      using 1(1)[OF True] 1(2,3) nc by (simp add: step_def Let_def)
    with True nc show ?thesis
      by (subst scan_x.simps) (simp add: Let_def)
  next
    case False
    then show ?thesis by (subst scan_x.simps) simp
  qed
qed

lemma scan_y_blank:
  assumes "even y"
    and "\<forall>x y'. y \<le> y' \<and> y' < h \<and> even y' \<and> x < w \<and> even x
           \<longrightarrow> \<not> covered img ((y' * w + x) * 4 + 3)"
  shows "scan_y img w h y s = s"
  using assms
proof (induction img w h y s rule: scan_y.induct)
  case (1 img w h y s)
  show ?case
  proof (cases "y < h")
    case True
    have row: "scan_x img w y 0 s = s"
      using 1(2,3) True by (intro scan_x_blank) auto
    have "scan_y img w h (y + step) s = s"
      using 1(1)[OF True] 1(2,3) row by (simp add: step_def)
    with True row show ?thesis
      by (subst scan_y.simps) simp
  next
    case False
    then show ?thesis by (subst scan_y.simps) simp
  qed
qed

text \<open>
  Claim C4. When no grid cell of the rendered text (every second pixel of every second
  row) has an alpha above 128, \<^verbatim>\<open>getTextPoints\<close> returns what \<^verbatim>\<open>getHeartPoints\<close>
  returns for the same viewport and the same draws, and so a full set of
  \<open>PARTICLE_COUNT\<close> targets.
\<close>

theorem text_falls_back_to_heart:
  assumes "getContext2d b" "0 < w" "0 < h"
    and "\<forall>x y. x < w \<and> y < h \<and> even x \<and> even y
           \<longrightarrow> \<not> covered (imageData b text w h) ((y * w + x) * 4 + 3)"
  shows "getTextPoints b text w h = Inr (getHeartPoints (random b) w h)
       \<and> length (getHeartPoints (random b) w h) = PARTICLE_COUNT"
proof -
  have "sampledPoints (rasterScan b text w h) = []"
    unfolding rasterScan_def using assms(4) by (subst scan_y_blank) auto
  with assms(1-3) show ?thesis
    by (simp add: getTextPoints_def length_getHeartPoints)
qed

theorem text_falls_back_to_heart_witness:
  "getTextPoints blank_browser text_A 3 3 = Inr (getHeartPoints (random blank_browser) 3 3)
     \<and> length (getHeartPoints (random blank_browser) 3 3) = PARTICLE_COUNT"
proof -
  have "\<forall>x y. x < 3 \<and> y < 3 \<and> even x \<and> even y
          \<longrightarrow> \<not> covered (imageData blank_browser text_A 3 3) ((y * 3 + x) * 4 + 3)"
    by (simp add: covered_def imageData_def blank_browser_def)
  moreover have "getContext2d blank_browser"
    by (simp add: blank_browser_def)
  ultimately show ?thesis
    using text_falls_back_to_heart[of blank_browser 3 3 text_A] by simp
qed

subsection \<open>Retargeting\<close>

lemma forEach_retarget_frame:
  "map without_target (fst (forEach_retarget nps i ps)) = map without_target ps"
  by (induction ps arbitrary: i) (simp_all add: Let_def without_target_def)

lemma updateTargets_frame:
  "map without_target (particles (fst (updateTargets b text st)))
     = map without_target (particles st)"
  by (simp add: updateTargets_def Let_def forEach_retarget_frame split: sum.splits)

lemma handleResize_frame:
  assumes "particles st \<noteq> []"
  shows "map without_target (particles (fst (handleResize b text st)))
           = map without_target (particles st)"
proof -
  let ?st1 = "st\<lparr>canvas_width := innerWidth b, canvas_height := innerHeight b\<rparr>"
  have "handleResize b text st = updateTargets b text ?st1"
    using assms by (simp add: handleResize_def Let_def)
  then show ?thesis by (simp add: updateTargets_frame)
qed

text \<open>
  Claim C7. After the field has been created, any number of retargeting events leaves
  every particle as it was but for \<open>targetX\<close> and \<open>targetY\<close> (position, velocity, size,
  colour and all other fields are unchanged), and the number of particles is unchanged.
\<close>

theorem retargeting_frame:
  assumes "particles st \<noteq> []"
  shows "map without_target (particles (retargets st evs)) = map without_target (particles st)
       \<and> length (particles (retargets st evs)) = length (particles st)"
  using assms
proof (induction evs arbitrary: st)
  case Nil
  then show ?case by simp
next
  case (Cons ev evs)
  let ?st' = "fst (handleResize (fst ev) (snd ev) st)"
  have fr: "map without_target (particles ?st') = map without_target (particles st)"
    by (rule handleResize_frame[OF Cons.prems])
  then have len: "length (particles ?st') = length (particles st)"
    by (metis length_map)
  with Cons.prems have ne: "particles ?st' \<noteq> []" by auto
  from Cons.IH[OF ne] fr len show ?case by simp
qed

theorem retargeting_frame_witness:
  "map without_target (particles (retargets field0 [(no_context, text_A), (blank_browser, text_empty)]))
     = map without_target (particles field0)
   \<and> length (particles (retargets field0 [(no_context, text_A), (blank_browser, text_empty)]))
     = length (particles field0)"
  using retargeting_frame[of field0 "[(no_context, text_A), (blank_browser, text_empty)]"]
  by (simp add: field0_def)

subsection \<open>The per-particle constants\<close>

text \<open>
  Claim C6, as amended. The constructor draws \<open>ease\<close> and \<open>twinkleSpeed\<close> at random and
  sets \<open>friction\<close> to 0.9 for every particle; a tick changes neither \<open>ease\<close> nor
  \<open>friction\<close>, and keeps the magnitude of \<open>twinkleSpeed\<close>: it negates it exactly when
  the new opacity is outside \<open>[0.4, 1]\<close>.
\<close>

theorem particle_constants:
  "friction (Particle rnd k w h x y) = 0.9
   \<and> ease (Particle rnd k w h x y) = 0.05 + rnd (k + 5) * 0.05
   \<and> twinkleSpeed (Particle rnd k w h x y) = 0.01 + rnd (k + 8) * 0.02
   \<and> friction (update p mx my) = friction p
   \<and> ease (update p mx my) = ease p
   \<and> \<bar>twinkleSpeed (update p mx my)\<bar> = \<bar>twinkleSpeed p\<bar>
   \<and> twinkleSpeed (update p mx my)
       = (if opacity p + twinkleSpeed p > 1 \<or> opacity p + twinkleSpeed p < 0.4
          then - twinkleSpeed p else twinkleSpeed p)"
  by (simp add: Particle_def update_def Let_def)

text \<open>
  Claim C6 as stated fails: two particles built from different draws (and different in
  other fields) have the same friction, and a tick changes the twinkle speed of a
  particle whose opacity leaves the band.
\<close>

theorem particle_constants_counterexample:
  "friction (Particle (\<lambda>k. 0) 0 800 600 400 300)
     = friction (Particle (\<lambda>k. 1 / 2) 0 800 600 400 300)
   \<and> Particle (\<lambda>k. 0) 0 800 600 400 300 \<noteq> Particle (\<lambda>k. 1 / 2) 0 800 600 400 300
   \<and> twinkleSpeed (update (Particle (\<lambda>k. 0) 0 800 600 400 300) (- 1000) (- 1000))
       \<noteq> twinkleSpeed (Particle (\<lambda>k. 0) 0 800 600 400 300)"
  by (simp add: Particle_def update_def Let_def MOUSE_RADIUS_def)

subsection \<open>A tick, step by step\<close>

lemma sqrt_ratio:
  assumes "a \<noteq> 0"
  shows "sqrt (1 + (b / a)\<^sup>2) = sqrt (a * a + b * b) / \<bar>a\<bar>"
proof -
  have "1 + (b / a)\<^sup>2 = (a * a + b * b) / (a * a)"
    using assms by (simp add: power2_eq_square field_simps)
  then have "sqrt (1 + (b / a)\<^sup>2) = sqrt (a * a + b * b) / sqrt (a * a)"
    by (simp add: real_sqrt_divide)
  then show ?thesis by simp
qed

lemma cos_arctan_ratio:
  assumes "a \<noteq> 0"
  shows "cos (arctan (b / a)) = \<bar>a\<bar> / sqrt (a * a + b * b)"
  by (simp add: cos_arctan sqrt_ratio[OF assms])

lemma sin_arctan_ratio:
  assumes "a \<noteq> 0"
  shows "sin (arctan (b / a)) = (b / a) * \<bar>a\<bar> / sqrt (a * a + b * b)"
  by (simp add: sin_arctan sqrt_ratio[OF assms])

lemma cos_atan2: "cos (atan2 b a) = fst (away a b)"
proof -
  consider "0 < a" | "a < 0" | "a = 0" by linarith
  then show ?thesis
  proof cases
    case 1
    then show ?thesis using cos_arctan_ratio[of a b] by (simp add: atan2_def away_def)
  next
    case 2
    then show ?thesis using cos_arctan_ratio[of a b] by (simp add: atan2_def away_def)
  next
    case 3
    then show ?thesis by (simp add: atan2_def away_def)
  qed
qed

lemma sin_atan2: "sin (atan2 b a) = snd (away a b)"
proof -
  consider "0 < a" | "a < 0" | "a = 0" by linarith
  then show ?thesis
  proof cases
    case 1
    then show ?thesis using sin_arctan_ratio[of a b] by (simp add: atan2_def away_def)
  next
    case 2
    then show ?thesis using sin_arctan_ratio[of a b] by (simp add: atan2_def away_def)
  next
    case 3
    then show ?thesis by (auto simp add: atan2_def away_def real_sqrt_abs2 abs_if)
  qed
qed

lemma away_unit: "(fst (away a b))\<^sup>2 + (snd (away a b))\<^sup>2 = 1"
proof (cases "a = 0 \<and> b = 0")
  case True
  then show ?thesis by (simp add: away_def)
next
  case False
  then have pos: "0 < a * a + b * b"
    by (metis add_pos_nonneg add_nonneg_pos zero_le_square not_real_square_gt_zero)
  have "(fst (away a b))\<^sup>2 + (snd (away a b))\<^sup>2
      = a * a / (a * a + b * b) + b * b / (a * a + b * b)"
    using False pos by (simp add: away_def power_divide power2_eq_square)
  also have "\<dots> = (a * a + b * b) / (a * a + b * b)"
    by (simp only: add_divide_distrib)
  also have "\<dots> = 1"
    using False by simp
  finally show ?thesis .
qed

lemmas step_defs = steps_def twinkle_def integrate_def damp_def repel_def spring_def impulse_def

lemma update_pos_x: "pos_x (update p mx my) = pos_x (steps p mx my)"
  by (simp add: update_def Let_def step_defs cos_atan2 sin_atan2)

lemma update_pos_y: "pos_y (update p mx my) = pos_y (steps p mx my)"
  by (simp add: update_def Let_def step_defs cos_atan2 sin_atan2)

lemma update_vx: "vx (update p mx my) = vx (steps p mx my)"
  by (simp add: update_def Let_def step_defs cos_atan2 sin_atan2)

lemma update_vy: "vy (update p mx my) = vy (steps p mx my)"
  by (simp add: update_def Let_def step_defs cos_atan2 sin_atan2)

lemma update_targetX: "targetX (update p mx my) = targetX (steps p mx my)"
  by (simp add: update_def Let_def step_defs)

lemma update_targetY: "targetY (update p mx my) = targetY (steps p mx my)"
  by (simp add: update_def Let_def step_defs)

lemma update_psize: "psize (update p mx my) = psize (steps p mx my)"
  by (simp add: update_def Let_def step_defs)

lemma update_baseSize: "baseSize (update p mx my) = baseSize (steps p mx my)"
  by (simp add: update_def Let_def step_defs)

lemma update_friction: "friction (update p mx my) = friction (steps p mx my)"
  by (simp add: update_def Let_def step_defs)

lemma update_ease: "ease (update p mx my) = ease (steps p mx my)"
  by (simp add: update_def Let_def step_defs)

lemma update_color: "color (update p mx my) = color (steps p mx my)"
  by (simp add: update_def Let_def step_defs)

lemma update_opacity: "opacity (update p mx my) = opacity (steps p mx my)"
  by (simp add: update_def Let_def step_defs)

lemma update_twinkleSpeed: "twinkleSpeed (update p mx my) = twinkleSpeed (steps p mx my)"
  by (simp add: update_def Let_def step_defs)

lemma update_steps: "update p mx my = steps p mx my"
  by (rule particle.equality)
    (simp_all only: update_pos_x update_pos_y update_vx update_vy update_targetX update_targetY
      update_psize update_baseSize update_friction update_ease update_color update_opacity
      update_twinkleSpeed, simp)

lemma impulse_norm:
  "sqrt ((fst (impulse p mx my))\<^sup>2 + (snd (impulse p mx my))\<^sup>2)
     = (if (pos_x p - mx)\<^sup>2 + (pos_y p - my)\<^sup>2 < MOUSE_RADIUS\<^sup>2
        then (MOUSE_RADIUS - sqrt ((pos_x p - mx)\<^sup>2 + (pos_y p - my)\<^sup>2)) / MOUSE_RADIUS * 15
        else 0)"
proof -
  define a where "a = pos_x p - mx"
  define b where "b = pos_y p - my"
  define m where "m = (MOUSE_RADIUS - sqrt (a * a + b * b)) / MOUSE_RADIUS * 15"
  show ?thesis
  proof (cases "a * a + b * b < MOUSE_RADIUS * MOUSE_RADIUS")
    case True
    then have "sqrt (a * a + b * b) < sqrt (MOUSE_RADIUS * MOUSE_RADIUS)"
      by (simp only: real_sqrt_less_iff)
    then have "sqrt (a * a + b * b) < MOUSE_RADIUS" by (simp add: MOUSE_RADIUS_def)
    then have m0: "0 \<le> m" by (simp add: m_def MOUSE_RADIUS_def)
    have "(m * fst (away a b))\<^sup>2 + (m * snd (away a b))\<^sup>2
        = m\<^sup>2 * ((fst (away a b))\<^sup>2 + (snd (away a b))\<^sup>2)"
      by (simp add: power_mult_distrib distrib_left)
    then have "sqrt ((m * fst (away a b))\<^sup>2 + (m * snd (away a b))\<^sup>2) = m"
      using m0 by (simp add: away_unit)
    with True show ?thesis
      by (simp add: impulse_def Let_def a_def b_def m_def power2_eq_square)
  next
    case False
    then show ?thesis by (simp add: impulse_def Let_def a_def b_def power2_eq_square)
  qed
qed

text \<open>
  Claim C2. A tick is the five steps in this order: spring to the target, mouse
  repulsion, damping, integration (of the damped velocity), twinkle. The impulse of the
  repulsion is \<open>away\<close>, a unit vector from the mouse to the particle, scaled by
  \<open>(MOUSE_RADIUS - dist) / MOUSE_RADIUS * 15\<close> when the squared distance is below
  \<open>MOUSE_RADIUS\<^sup>2\<close>; at or beyond the radius it is zero.
\<close>

theorem update_in_order:
  "update p mx my = twinkle (integrate (damp (repel mx my (spring p))))
   \<and> sqrt ((fst (impulse q mx my))\<^sup>2 + (snd (impulse q mx my))\<^sup>2)
       = (if (pos_x q - mx)\<^sup>2 + (pos_y q - my)\<^sup>2 < MOUSE_RADIUS\<^sup>2
          then (MOUSE_RADIUS - sqrt ((pos_x q - mx)\<^sup>2 + (pos_y q - my)\<^sup>2)) / MOUSE_RADIUS * 15
          else 0)
   \<and> (fst (away a b))\<^sup>2 + (snd (away a b))\<^sup>2 = 1"
  using update_steps[of p mx my] impulse_norm[of q mx my] away_unit[of a b]
  by (simp only: steps_def simp_thms)

subsection \<open>Determinism of a tick\<close>

lemma steps_dynamics:
  assumes "dynamics p = dynamics q"
  shows "dynamics (steps p mx my) = dynamics (steps q mx my)"
  using assms by (simp add: dynamics_def step_defs Let_def)

lemma animate_steps:
  "animate b mouse st
     = st\<lparr>particles := map (\<lambda>p. steps p (fst mouse) (snd mouse)) (particles st)\<rparr>"
  by (simp add: animate_def update_steps)

lemma exec_agree:
  assumes "agree x y"
  shows "exec (fst x) (snd x) st = exec (fst y) (snd y) st"
proof (cases "snd x")
  case (Retarget t)
  with assms show ?thesis by (simp add: agree_def)
next
  case (Frame m)
  with assms have "snd y = Frame m" by (simp add: agree_def)
  with Frame show ?thesis by (simp add: animate_steps)
qed

lemma run_agree:
  assumes "list_all2 agree bes bes'"
  shows "run st bes = run st bes'"
  using assms
proof (induction bes bes' arbitrary: st rule: list_all2_induct)
  case Nil
  show ?case by simp
next
  case (Cons x xs y ys)
  from exec_agree[OF Cons.hyps(1)] Cons.IH show ?case by simp
qed

lemma heart_draws_matter:
  "getHeartPoints (\<lambda>k. 0) w h \<noteq> getHeartPoints (\<lambda>k. 1 / 4) w h"
proof
  assume eq: "getHeartPoints (\<lambda>k. 0) w h = getHeartPoints (\<lambda>k. 1 / 4) w h"
  have len: "0 < PARTICLE_COUNT" by (simp add: PARTICLE_COUNT_def)
  have "getHeartPoints (\<lambda>k. 0) w h ! 0 = heartPoint 0 w h"
    "getHeartPoints (\<lambda>k. 1 / 4) w h ! 0 = heartPoint (1 / 4) w h"
    using len by (simp_all add: getHeartPoints_eq)
  with eq have "pt_x (heartPoint 0 w h) = pt_x (heartPoint (1 / 4) w h)" by simp
  then show False by (simp add: heartPoint_def Let_def HEART_SCALE_def)
qed

text \<open>
  Claim C10. A tick takes no random draw. A frame is the same function of the particles
  and the mouse in every browser, whatever \<^verbatim>\<open>Math.random()\<close> would return there: it
  maps each particle through the five steps. So two runs of the application that differ
  only in the browsers of their frames end in the same state: the draws reach the state
  through retargeting events alone, that is, through the constructor and the shape
  samplers, where they do matter. And what a tick does to the fields of the physics
  depends on those fields and the mouse alone: two particles that agree on position,
  velocity, target, ease, friction, opacity and twinkle speed agree on them after a tick
  with the same mouse position.
\<close>

theorem tick_takes_no_draw:
  assumes "dynamics p = dynamics q" "list_all2 agree bes bes'"
  shows "dynamics (update p mx my) = dynamics (update q mx my)
       \<and> animate b mouse st = animate b' mouse st
       \<and> particles (animate b mouse st)
           = map (\<lambda>p. steps p (fst mouse) (snd mouse)) (particles st)
       \<and> run st bes = run st bes'
       \<and> getHeartPoints (\<lambda>k. 0) w h \<noteq> getHeartPoints (\<lambda>k. 1 / 4) w h
       \<and> Particle (\<lambda>k. 0) k iw ih x y \<noteq> Particle (\<lambda>k. 1 / 2) k iw ih x y"
proof -
  have "dynamics (update p mx my) = dynamics (update q mx my)"
    using steps_dynamics[OF assms(1)] by (simp only: update_steps)
  moreover have "animate b mouse st = animate b' mouse st"
    by (simp only: animate_steps)
  moreover have "particles (animate b mouse st)
      = map (\<lambda>p. steps p (fst mouse) (snd mouse)) (particles st)"
    by (simp add: animate_steps)
  moreover have "run st bes = run st bes'"
    by (rule run_agree[OF assms(2)])
  moreover have "Particle (\<lambda>k. 0) k iw ih x y \<noteq> Particle (\<lambda>k. 1 / 2) k iw ih x y"
  proof
    assume "Particle (\<lambda>k. 0) k iw ih x y = Particle (\<lambda>k. 1 / 2) k iw ih x y"
    then have "opacity (Particle (\<lambda>k. 0) k iw ih x y) = opacity (Particle (\<lambda>k. 1 / 2) k iw ih x y)"
      by simp
    then show False by (simp add: Particle_def Let_def)
  qed
  ultimately show ?thesis using heart_draws_matter[of w h] by simp
qed

theorem tick_takes_no_draw_witness:
  "dynamics (update particle0 3 4) = dynamics (update (particle0\<lparr>psize := 2, color := None\<rparr>) 3 4)
   \<and> animate no_context far field0 = animate solid_browser far field0
   \<and> particles (animate no_context far field0)
       = map (\<lambda>p. steps p (fst far) (snd far)) (particles field0)
   \<and> run field0 [(no_context, Frame far), (blank_browser, Retarget text_empty),
                  (blank_browser, Frame (3, 4))]
       = run field0 [(solid_browser, Frame far), (blank_browser, Retarget text_empty),
                     (lopsided_browser, Frame (3, 4))]
   \<and> getHeartPoints (\<lambda>k. 0) 800 600 \<noteq> getHeartPoints (\<lambda>k. 1 / 4) 800 600
   \<and> Particle (\<lambda>k. 0) 0 800 600 400 300 \<noteq> Particle (\<lambda>k. 1 / 2) 0 800 600 400 300"
proof -
  have a: "dynamics particle0 = dynamics (particle0\<lparr>psize := 2, color := None\<rparr>)"
    by (simp add: dynamics_def)
  have b: "list_all2 agree
      [(no_context, Frame far), (blank_browser, Retarget text_empty), (blank_browser, Frame (3, 4))]
      [(solid_browser, Frame far), (blank_browser, Retarget text_empty),
       (lopsided_browser, Frame (3, 4))]"
    by (simp add: agree_def)
  show ?thesis
    by (rule tick_takes_no_draw[OF a b])
qed

subsection \<open>The twinkle\<close>

text \<open>
  Once in the band the opacity stays in it, up to the overshoot of one tick: it is
  between \<open>0.4 - 0.03\<close> and \<open>1 + 0.03\<close> after any run of ticks.
\<close>

lemma in_band_update:
  assumes "in_band p"
  shows "in_band (update p mx my)"
proof -
  have o: "opacity (update p mx my) = opacity p + twinkleSpeed p"
    by (simp add: update_def Let_def)
  have s: "twinkleSpeed (update p mx my)
      = (if opacity p + twinkleSpeed p > 1 \<or> opacity p + twinkleSpeed p < 0.4
         then - twinkleSpeed p else twinkleSpeed p)"
    by (simp add: update_def Let_def)
  show ?thesis
    using assms unfolding in_band_def o s by (auto split: if_splits)
qed

lemma in_band_ticks:
  assumes "in_band p"
  shows "in_band (ticks p ms)"
  using assms by (induction ms arbitrary: p) (simp_all add: in_band_update)

lemma in_band_bounds:
  assumes "in_band p"
  shows "4 / 10 - 3 / 100 \<le> opacity p \<and> opacity p \<le> 1 + 3 / 100"
  using assms unfolding in_band_def by (auto simp: abs_if split: if_splits)

lemma stuck_step:
  assumes "0 < s" "a + s < 0.4"
    and "(opacity p = a \<and> twinkleSpeed p = s) \<or> (opacity p = a + s \<and> twinkleSpeed p = - s)"
  shows "(opacity (update p mx my) = a \<and> twinkleSpeed (update p mx my) = s)
       \<or> (opacity (update p mx my) = a + s \<and> twinkleSpeed (update p mx my) = - s)"
  using assms by (auto simp add: update_def Let_def)

lemma stuck_ticks:
  assumes "0 < s" "a + s < 0.4"
    and "(opacity p = a \<and> twinkleSpeed p = s) \<or> (opacity p = a + s \<and> twinkleSpeed p = - s)"
  shows "opacity (ticks p ms) = a \<or> opacity (ticks p ms) = a + s"
  using assms(3)
proof (induction ms arbitrary: p)
  case Nil
  then show ?case by auto
next
  case (Cons m ms)
  show ?case using Cons.IH[OF stuck_step[OF assms(1,2) Cons.prems]] by simp
qed

text \<open>
  Claim C3 fails on the code. The constructor draws the opacity from \<open>[0, 1)\<close>, not from
  the band; a particle that starts below \<open>0.4\<close> by more than its twinkle speed flips
  direction on every tick and never enters the band. Here every draw is \<open>1 / 10\<close>:
  the opacity starts at \<open>0.1\<close>, the twinkle speed at \<open>0.012\<close>, and after any run of
  ticks the opacity is still below \<open>0.4 - 0.03\<close>.
\<close>

theorem twinkle_stuck_below_band:
  "opacity (ticks (Particle (\<lambda>k. 1 / 10) 0 800 600 400 300) ms) < 0.4 - 0.03"
proof -
  let ?p = "Particle (\<lambda>k. 1 / 10) 0 800 600 400 300"
  have "opacity ?p = 1 / 10 \<and> twinkleSpeed ?p = 3 / 250"
    by (simp add: Particle_def Let_def)
  then have "opacity (ticks ?p ms) = 1 / 10 \<or> opacity (ticks ?p ms) = 1 / 10 + 3 / 250"
    by (intro stuck_ticks) auto
  then show ?thesis by auto
qed

subsection \<open>The extent of the heart\<close>

lemma heart_y_poly:
  fixes t :: real
  shows "13 * cos t - 5 * cos (2 * t) - 2 * cos (3 * t) - cos (4 * t)
     = 4 + 19 * cos t - 2 * (cos t)\<^sup>2 * (2 * cos t + 1)\<^sup>2"
proof -
  have "cos (4 * t) = 2 * (cos (2 * t))\<^sup>2 - 1"
    using cos_double_cos[of "2 * t"] by simp
  then have c4: "cos (4 * t) = 2 * (2 * (cos t)\<^sup>2 - 1)\<^sup>2 - 1"
    by (simp add: cos_double_cos)
  show ?thesis
    unfolding c4 cos_double_cos cos_treble_cos
    by (simp add: power2_eq_square power3_eq_cube algebra_simps)
qed

lemma heart_poly_upper:
  fixes c :: real
  assumes "- 1 \<le> c" "c \<le> 1"
  shows "4 + 19 * c - 2 * c\<^sup>2 * (2 * c + 1)\<^sup>2 \<le> 20"
proof (cases "c \<le> 4 / 5")
  case True
  have "0 \<le> 2 * c\<^sup>2 * (2 * c + 1)\<^sup>2" by simp
  with True show ?thesis by linarith
next
  case False
  then have c: "4 / 5 \<le> c" by simp
  have "(4 / 5)\<^sup>2 \<le> c\<^sup>2" using c by (intro power_mono) auto
  moreover have "(13 / 5)\<^sup>2 \<le> (2 * c + 1)\<^sup>2" using c by (intro power_mono) auto
  ultimately have "(4 / 5)\<^sup>2 * (13 / 5)\<^sup>2 \<le> c\<^sup>2 * (2 * c + 1)\<^sup>2"
    by (intro mult_mono) auto
  then have "3 \<le> 2 * c\<^sup>2 * (2 * c + 1)\<^sup>2" by (simp add: power2_eq_square)
  with assms show ?thesis by linarith
qed

lemma heart_poly_lower:
  fixes c :: real
  assumes "- 1 \<le> c" "c \<le> 1"
  shows "- 17 \<le> 4 + 19 * c - 2 * c\<^sup>2 * (2 * c + 1)\<^sup>2"
proof -
  have eq: "4 + 19 * c - 2 * c\<^sup>2 * (2 * c + 1)\<^sup>2 + 17 = (c + 1) * (21 - 2 * c - 8 * c ^ 3)"
    by (simp add: power2_eq_square power3_eq_cube algebra_simps)
  have "\<bar>c\<bar> ^ 3 \<le> 1" using assms by (intro power_le_one) auto
  then have "c ^ 3 \<le> 1" by (metis abs_le_iff power_abs)
  then have "0 \<le> 21 - 2 * c - 8 * c ^ 3" using assms by linarith
  then have "0 \<le> (c + 1) * (21 - 2 * c - 8 * c ^ 3)" using assms by (intro mult_nonneg_nonneg) auto
  with eq show ?thesis by linarith
qed

lemma heart_y_range:
  fixes t :: real
  shows "- 17 \<le> 13 * cos t - 5 * cos (2 * t) - 2 * cos (3 * t) - cos (4 * t)"
    and "13 * cos t - 5 * cos (2 * t) - 2 * cos (3 * t) - cos (4 * t) \<le> 20"
  unfolding heart_y_poly
  by (rule heart_poly_lower heart_poly_upper; simp)+

lemma heartPoint_x: "\<bar>pt_x (heartPoint r w h) - real w / 2\<bar> \<le> 224"
proof -
  have "\<bar>sin (r * pi * 2)\<bar> ^ 3 \<le> 1" by (intro power_le_one) auto
  then have "\<bar>sin (r * pi * 2) ^ 3\<bar> \<le> 1" by (simp add: power_abs)
  then show ?thesis
    by (simp add: heartPoint_def Let_def HEART_SCALE_def abs_mult)
qed

lemma heartPoint_y:
  "pt_y (heartPoint r w h) - real h / 2 \<le> 238" "- 280 \<le> pt_y (heartPoint r w h) - real h / 2"
  using heart_y_range[of "r * pi * 2"]
  by (simp_all add: heartPoint_def Let_def HEART_SCALE_def)

lemma heart_right: "pt_x (heartPoint (1 / 4) w h) = real w / 2 + 224"
  by (simp add: heartPoint_def Let_def HEART_SCALE_def)

lemma heart_bottom: "pt_y (heartPoint (1 / 2) w h) = real h / 2 + 238"
  by (simp add: heartPoint_def Let_def HEART_SCALE_def)


lemma heartPoint_y_abs: "\<bar>pt_y (heartPoint r w h) - real h / 2\<bar> \<le> 294"
  using heartPoint_y[of r w h] by linarith

lemma heart_first: "heartPoint (rnd 0) w h \<in> set (getHeartPoints rnd w h)"
proof -
  have "0 \<in> set [0..<PARTICLE_COUNT]" by (simp add: PARTICLE_COUNT_def)
  then show ?thesis unfolding getHeartPoints_eq by (metis (no_types, lifting) image_eqI set_map)
qed

lemma heart_can_leave:
  assumes "w < 448 \<or> h < 476"
  shows "\<exists>rnd. random_source rnd \<and> (\<exists>p\<in>set (getHeartPoints rnd w h). outside w h p)"
proof (cases "w < 448")
  case True
  have "outside w h (heartPoint (1 / 4) w h)"
    using True by (simp add: outside_def heart_right)
  moreover have "random_source (\<lambda>k. 1 / 4)" by (simp add: random_source_def)
  ultimately show ?thesis using heart_first[of "\<lambda>k. 1 / 4" w h] by blast
next
  case False
  with assms have "h < 476" by simp
  then have "outside w h (heartPoint (1 / 2) w h)"
    by (simp add: outside_def heart_bottom)
  moreover have "random_source (\<lambda>k. 1 / 2)" by (simp add: random_source_def)
  ultimately show ?thesis using heart_first[of "\<lambda>k. 1 / 2" w h] by blast
qed

text \<open>
  Claim C9, as amended. Every heart point lies in the box \<open>|x - width / 2| \<le> 16 * HEART_SCALE
  = 224\<close>, \<open>|y - height / 2| \<le> 21 * HEART_SCALE = 294\<close> around the centre, whatever the
  viewport; below the centre the sharper bound \<open>y - height / 2 \<le> 17 * HEART_SCALE = 238\<close>
  holds. For a viewport narrower than 448 or shorter than 476 pixels some draws put a
  heart point outside the viewport.
\<close>

theorem heart_box:
  "(\<forall>p\<in>set (getHeartPoints rnd w h).
       \<bar>pt_x p - real w / 2\<bar> \<le> 16 * HEART_SCALE
     \<and> \<bar>pt_y p - real h / 2\<bar> \<le> 21 * HEART_SCALE
     \<and> pt_y p - real h / 2 \<le> 17 * HEART_SCALE)
   \<and> 16 * HEART_SCALE = 224 \<and> 21 * HEART_SCALE = 294 \<and> 17 * HEART_SCALE = 238
   \<and> (w < 448 \<or> h < 476 \<longrightarrow>
        (\<exists>rnd'. random_source rnd' \<and> (\<exists>p\<in>set (getHeartPoints rnd' w h). outside w h p)))"
proof -
  have "\<bar>pt_x p - real w / 2\<bar> \<le> 16 * HEART_SCALE
     \<and> \<bar>pt_y p - real h / 2\<bar> \<le> 21 * HEART_SCALE
     \<and> pt_y p - real h / 2 \<le> 17 * HEART_SCALE"
    if "p \<in> set (getHeartPoints rnd w h)" for p
  proof -
    from that obtain j where "p = heartPoint (rnd j) w h"
      by (auto simp: getHeartPoints_eq)
    then show ?thesis
      using heartPoint_x[of "rnd j" w h] heartPoint_y_abs[of "rnd j" w h] heartPoint_y(1)[of "rnd j" w h]
      by (simp add: HEART_SCALE_def)
  qed
  then show ?thesis using heart_can_leave[of w h] by (simp add: HEART_SCALE_def)
qed

theorem heart_box_witness:
  "\<bar>pt_x (heartPoint (1 / 4) 400 600) - real 400 / 2\<bar> \<le> 16 * HEART_SCALE
   \<and> \<bar>pt_y (heartPoint (1 / 4) 400 600) - real 600 / 2\<bar> \<le> 21 * HEART_SCALE
   \<and> pt_y (heartPoint (1 / 4) 400 600) - real 600 / 2 \<le> 17 * HEART_SCALE
   \<and> (\<exists>rnd'. random_source rnd' \<and> (\<exists>p\<in>set (getHeartPoints rnd' 400 600). outside 400 600 p))"
  using heart_box[of "\<lambda>k. 1 / 4" 400 600] heart_first[of "\<lambda>k. 1 / 4" 400 600]
  by simp

text \<open>
  Claim C9 as stated fails: a viewport of 1000 x 587 pixels is shorter than 588, and no
  draw puts a heart point outside it (the curve reaches 238 below and at most 280 above
  the centre).
\<close>

theorem heart_box_counterexample:
  "\<not> (\<exists>rnd. \<exists>p\<in>set (getHeartPoints rnd 1000 587). outside 1000 587 p)"
proof -
  have "\<not> outside 1000 587 (heartPoint r 1000 587)" for r
    using heartPoint_x[of r 1000 587] heartPoint_y[of r 1000 587]
    by (auto simp add: outside_def)
  then show ?thesis by (auto simp: getHeartPoints_eq)
qed

subsection \<open>Centring the text\<close>

lemma Min_step:
  fixes a :: real
  assumes "finite A" "A \<noteq> {}"
  shows "(if a < Min A then a else Min A) = Min (insert a A)"
proof -
  define m where "m = Min A"
  have "Min (insert a A) = min a m"
    unfolding m_def using assms by (rule Min_insert)
  then show ?thesis unfolding m_def[symmetric] by (simp add: min_def)
qed

lemma Max_step:
  fixes a :: real
  assumes "finite A" "A \<noteq> {}"
  shows "(if a > Max A then a else Max A) = Max (insert a A)"
proof -
  define m where "m = Max A"
  have "Max (insert a A) = max a m"
    unfolding m_def using assms by (rule Max_insert)
  then show ?thesis unfolding m_def[symmetric] by (simp add: max_def)
qed

lemma collect_inv:
  assumes "bbox_inv w h s" "x < w" "y < h"
  shows "bbox_inv w h (collect x y s)"
proof -
  let ?X = "pt_x ` set (sampledPoints s)"
  let ?Y = "pt_y ` set (sampledPoints s)"
  have sp: "sampledPoints (collect x y s) = sampledPoints s @ [\<lparr>pt_x = real x, pt_y = real y\<rparr>]"
    by (simp add: collect_def Let_def)
  have mnx: "minX (collect x y s) = (if real x < minX s then real x else minX s)"
    by (simp add: collect_def Let_def)
  have mxx: "maxX (collect x y s) = (if real x > maxX s then real x else maxX s)"
    by (simp add: collect_def Let_def)
  have mny: "minY (collect x y s) = (if real y < minY s then real y else minY s)"
    by (simp add: collect_def Let_def)
  have mxy: "maxY (collect x y s) = (if real y > maxY s then real y else maxY s)"
    by (simp add: collect_def Let_def)
  have X: "pt_x ` set (sampledPoints (collect x y s)) = insert (real x) ?X"
    and Y: "pt_y ` set (sampledPoints (collect x y s)) = insert (real y) ?Y"
    by (simp_all add: sp)
  from assms(1) have inv:
    "minX s = Min (insert (real w) ?X)" "maxX s = Max (insert 0 ?X)"
    "minY s = Min (insert (real h) ?Y)" "maxY s = Max (insert 0 ?Y)"
    by (simp_all add: bbox_inv_def)
  have "minX (collect x y s) = Min (insert (real w) (insert (real x) ?X))"
    unfolding mnx inv by (subst Min_step) (simp_all add: insert_commute)
  moreover have "maxX (collect x y s) = Max (insert 0 (insert (real x) ?X))"
    unfolding mxx inv by (subst Max_step) (simp_all add: insert_commute)
  moreover have "minY (collect x y s) = Min (insert (real h) (insert (real y) ?Y))"
    unfolding mny inv by (subst Min_step) (simp_all add: insert_commute)
  moreover have "maxY (collect x y s) = Max (insert 0 (insert (real y) ?Y))"
    unfolding mxy inv by (subst Max_step) (simp_all add: insert_commute)
  moreover have "\<forall>p\<in>set (sampledPoints (collect x y s)).
      pt_x p < real w \<and> pt_y p < real h \<and> 0 \<le> pt_x p \<and> 0 \<le> pt_y p"
    using assms by (auto simp: sp bbox_inv_def)
  ultimately show ?thesis
    unfolding bbox_inv_def X Y by blast
qed

lemma scan_x_inv:
  assumes "bbox_inv w h s" "y < h"
  shows "bbox_inv w h (scan_x img w y x s)"
  using assms
proof (induction img w y x s rule: scan_x.induct)
  case (1 img w y x s)
  show ?case
  proof (cases "x < w")
    case True
    let ?s' = "let index = (y * w + x) * 4 in if covered img (index + 3) then collect x y s else s"
    have "bbox_inv w h ?s'"
      using 1(2,3) True by (simp add: Let_def collect_inv)
    from 1(1)[OF True this 1(3)] True show ?thesis
      by (subst scan_x.simps) simp
  next
    case False
    with 1(2) show ?thesis by (subst scan_x.simps) simp
  qed
qed

lemma scan_y_inv:
  assumes "bbox_inv w h s"
  shows "bbox_inv w h (scan_y img w h y s)"
  using assms
proof (induction img w h y s rule: scan_y.induct)
  case (1 img w h y s)
  show ?case
  proof (cases "y < h")
    case True
    from 1(1)[OF True scan_x_inv[OF 1(2) True]] True show ?thesis
      by (subst scan_y.simps) simp
  next
    case False
    with 1(2) show ?thesis by (subst scan_y.simps) simp
  qed
qed

lemma rasterScan_inv: "bbox_inv w h (rasterScan b text w h)"
  unfolding rasterScan_def Let_def
  by (rule scan_y_inv) (simp add: bbox_inv_def)

lemma bbox_exact:
  assumes "bbox_inv w h s" "sampledPoints s \<noteq> []"
  shows "minX s = Min (pt_x ` set (sampledPoints s))"
    and "maxX s = Max (pt_x ` set (sampledPoints s))"
    and "minY s = Min (pt_y ` set (sampledPoints s))"
    and "maxY s = Max (pt_y ` set (sampledPoints s))"
proof -
  let ?X = "pt_x ` set (sampledPoints s)"
  let ?Y = "pt_y ` set (sampledPoints s)"
  from assms(2) obtain p where p: "p \<in> set (sampledPoints s)"
    by (meson last_in_set)
  with assms(1) have pb: "pt_x p < real w" "pt_y p < real h" "0 \<le> pt_x p" "0 \<le> pt_y p"
    by (simp_all add: bbox_inv_def)
  have fin: "finite ?X" "finite ?Y" by simp_all
  have ne: "?X \<noteq> {}" "?Y \<noteq> {}" using assms(2) by simp_all
  have "Min ?X \<le> pt_x p" "pt_x p \<le> Max ?X" using p by simp_all
  with pb have x: "Min ?X < real w" "0 \<le> Max ?X" by linarith+
  have "Min ?Y \<le> pt_y p" "pt_y p \<le> Max ?Y" using p by simp_all
  with pb have y: "Min ?Y < real h" "0 \<le> Max ?Y" by linarith+
  from assms(1) have inv:
    "minX s = Min (insert (real w) ?X)" "maxX s = Max (insert 0 ?X)"
    "minY s = Min (insert (real h) ?Y)" "maxY s = Max (insert 0 ?Y)"
    by (simp_all add: bbox_inv_def)
  show "minX s = Min ?X"
    unfolding inv Min_insert[OF fin(1) ne(1)] using x by (simp only: min_def) simp
  show "maxX s = Max ?X"
    unfolding inv Max_insert[OF fin(1) ne(1)] using x by (simp only: max_def) simp
  show "minY s = Min ?Y"
    unfolding inv Min_insert[OF fin(2) ne(2)] using y by (simp only: min_def) simp
  show "maxY s = Max ?Y"
    unfolding inv Max_insert[OF fin(2) ne(2)] using y by (simp only: max_def) simp
qed

lemma shift_x: "pt_x ` set (shift ox oy ps) = (\<lambda>p. pt_x p + ox) ` set ps"
  by (auto simp: shift_def image_iff)

lemma shift_y: "pt_y ` set (shift ox oy ps) = (\<lambda>p. pt_y p + oy) ` set ps"
  by (auto simp: shift_def image_iff)

lemma box_mid_shift:
  assumes "ps \<noteq> []"
  shows "box_mid_x (shift ox oy ps) = box_mid_x ps + ox"
    and "box_mid_y (shift ox oy ps) = box_mid_y ps + oy"
proof -
  have fin: "finite (set ps)" and ne: "set ps \<noteq> {}" using assms by simp_all
  show "box_mid_x (shift ox oy ps) = box_mid_x ps + ox"
    unfolding box_mid_x_def shift_x Min_add_commute[OF fin ne] Max_add_commute[OF fin ne]
    by (simp add: field_simps)
  show "box_mid_y (shift ox oy ps) = box_mid_y ps + oy"
    unfolding box_mid_y_def shift_y Min_add_commute[OF fin ne] Max_add_commute[OF fin ne]
    by (simp add: field_simps)
qed

text \<open>
  Claim C5, as amended. For a non-empty candidate set, the bounding box of the candidates
  (before the jitter), after the centring offset is applied, has its midpoint at the
  centre of the viewport on both axes.
\<close>

theorem candidate_box_centred:
  assumes "sampledPoints (rasterScan b text w h) \<noteq> []"
  shows "box_mid_x (candidates b text w h) = real w / 2
       \<and> box_mid_y (candidates b text w h) = real h / 2"
proof -
  let ?s = "rasterScan b text w h"
  note ex = bbox_exact[OF rasterScan_inv assms]
  have "box_mid_x (sampledPoints ?s) + offsetX ?s w = real w / 2"
    unfolding box_mid_x_def offsetX_def Let_def ex by (simp add: field_simps)
  moreover have "box_mid_y (sampledPoints ?s) + offsetY ?s h = real h / 2"
    unfolding box_mid_y_def offsetY_def Let_def ex by (simp add: field_simps)
  ultimately show ?thesis
    by (simp add: candidates_def Let_def box_mid_shift[OF assms])
qed

theorem candidate_box_centred_witness:
  "box_mid_x (candidates lopsided_browser text_L 40 2) = real 40 / 2
   \<and> box_mid_y (candidates lopsided_browser text_L 40 2) = real 2 / 2"
proof -
  have "sampledPoints (rasterScan lopsided_browser text_L 40 2) \<noteq> []"
    by code_simp
  then show ?thesis by (rule candidate_box_centred)
qed

text \<open>
  Claim C5 as stated fails: the offset centres the bounding box, not the centroid. With
  candidates at x = 0, 2, 4, 6 and 38 in a viewport 40 pixels wide, the centroid of the
  centred candidates is at x = 11, nine pixels from the centre.
\<close>

theorem candidate_centroid_counterexample:
  "\<bar>centroid_x (candidates lopsided_browser text_L 40 2) - real 40 / 2\<bar> = 9"
  by code_simp

subsection \<open>The damped spring\<close>

lemma axis_energy_step:
  "axis_energy f e (d + (v - d * e) * f) ((v - d * e) * f) = f * axis_energy f e d v"
  by (simp add: axis_energy_def power2_eq_square algebra_simps)

lemma quiet_fields:
  assumes "\<not> (pos_x p - mx) * (pos_x p - mx) + (pos_y p - my) * (pos_y p - my)
             < MOUSE_RADIUS * MOUSE_RADIUS"
  shows "vx (update p mx my) = (vx p - (pos_x p - targetX p) * ease p) * friction p"
    and "vy (update p mx my) = (vy p - (pos_y p - targetY p) * ease p) * friction p"
    and "pos_x (update p mx my) = pos_x p + (vx p - (pos_x p - targetX p) * ease p) * friction p"
    and "pos_y (update p mx my) = pos_y p + (vy p - (pos_y p - targetY p) * ease p) * friction p"
    and "targetX (update p mx my) = targetX p"
    and "targetY (update p mx my) = targetY p"
    and "friction (update p mx my) = friction p"
    and "ease (update p mx my) = ease p"
  using assms by (simp_all add: update_steps step_defs Let_def algebra_simps)

lemma energy_step:
  assumes "\<not> (pos_x p - mx) * (pos_x p - mx) + (pos_y p - my) * (pos_y p - my)
             < MOUSE_RADIUS * MOUSE_RADIUS"
  shows "energy (update p mx my) = friction p * energy p"
proof -
  have "energy (update p mx my)
      = axis_energy (friction p) (ease p)
          ((pos_x p - targetX p) + (vx p - (pos_x p - targetX p) * ease p) * friction p)
          ((vx p - (pos_x p - targetX p) * ease p) * friction p)
      + axis_energy (friction p) (ease p)
          ((pos_y p - targetY p) + (vy p - (pos_y p - targetY p) * ease p) * friction p)
          ((vy p - (pos_y p - targetY p) * ease p) * friction p)"
    unfolding energy_def quiet_fields[OF assms] by (simp add: algebra_simps)
  then show ?thesis
    by (simp only: axis_energy_step energy_def distrib_left)
qed

lemma energy_ticks:
  assumes "quiet p ms"
  shows "energy (ticks p ms) = friction p ^ length ms * energy p
       \<and> friction (ticks p ms) = friction p \<and> ease (ticks p ms) = ease p
       \<and> targetX (ticks p ms) = targetX p \<and> targetY (ticks p ms) = targetY p"
  using assms
proof (induction ms arbitrary: p)
  case Nil
  then show ?case by simp
next
  case (Cons m ms)
  from Cons.prems have q: "\<not> (pos_x p - fst m) * (pos_x p - fst m) + (pos_y p - snd m) * (pos_y p - snd m)
          < MOUSE_RADIUS * MOUSE_RADIUS" and r: "quiet (update p (fst m) (snd m)) ms"
    by simp_all
  from Cons.IH[OF r] energy_step[OF q] quiet_fields(5-8)[OF q]
  show ?case by (simp add: algebra_simps)
qed

lemma axis_energy_lower:
  assumes "1 / 20 \<le> e" "e \<le> 1 / 10"
  shows "d\<^sup>2 / 80 + v\<^sup>2 / 2 \<le> axis_energy (9 / 10) e d v"
proof -
  define b where "b = 1 - 9 / 10 - 9 / 10 * e"
  define S where "S = d\<^sup>2 + v\<^sup>2"
  define P where "P = d * v"
  have b: "0 \<le> b" "b \<le> 11 / 200" using assms by (simp_all add: b_def)
  have S0: "0 \<le> S" by (simp add: S_def)
  have "(d + v)\<^sup>2 = S + 2 * P"
    by (simp add: power2_sum S_def P_def)
  moreover have "0 \<le> (d + v)\<^sup>2" by simp
  ultimately have dv: "- (S / 2) \<le> P" by linarith
  have "b * (- (S / 2)) \<le> b * P"
    using dv b(1) by (rule mult_left_mono)
  moreover have "b * (- (S / 2)) = - (b * S / 2)" by simp
  moreover have "b * S \<le> (11 / 200) * S"
    using b(2) S0 by (rule mult_right_mono)
  ultimately have cross: "- (11 / 400) * S \<le> b * P" by linarith
  define D where "D = d\<^sup>2"
  define V where "V = v\<^sup>2"
  define ED where "ED = e * D"
  define R where "R = b * P"
  have "(1 / 20) * D \<le> ED"
    unfolding ED_def D_def using assms(1) by (intro mult_right_mono) auto
  moreover have "axis_energy (9 / 10) e d v = (9 / 10) * ED + R + (9 / 10) * V"
    by (simp add: axis_energy_def b_def P_def D_def V_def ED_def R_def algebra_simps)
  moreover have "0 \<le> D" "0 \<le> V" by (simp_all add: D_def V_def)
  moreover have "- (11 / 400) * (D + V) \<le> R"
    using cross by (simp only: S_def D_def V_def R_def)
  ultimately show ?thesis
    unfolding D_def[symmetric] V_def[symmetric] by argo
qed


lemma energy_bounds:
  assumes "friction p = 9 / 10" "1 / 20 \<le> ease p" "ease p \<le> 1 / 10"
  shows "speedSq p \<le> 2 * energy p" and "targetDistSq p \<le> 80 * energy p" and "0 \<le> energy p"
proof -
  have x: "(pos_x p - targetX p)\<^sup>2 / 80 + (vx p)\<^sup>2 / 2
      \<le> axis_energy (9 / 10) (ease p) (pos_x p - targetX p) (vx p)"
    by (rule axis_energy_lower[OF assms(2,3)])
  have y: "(pos_y p - targetY p)\<^sup>2 / 80 + (vy p)\<^sup>2 / 2
      \<le> axis_energy (9 / 10) (ease p) (pos_y p - targetY p) (vy p)"
    by (rule axis_energy_lower[OF assms(2,3)])
  have nn: "0 \<le> (pos_x p - targetX p)\<^sup>2" "0 \<le> (pos_y p - targetY p)\<^sup>2"
    "0 \<le> (vx p)\<^sup>2" "0 \<le> (vy p)\<^sup>2" by simp_all
  show "speedSq p \<le> 2 * energy p"
    using x y nn unfolding speedSq_def energy_def assms(1) by argo
  show "targetDistSq p \<le> 80 * energy p"
    using x y nn unfolding targetDistSq_def energy_def assms(1) by argo
  show "0 \<le> energy p"
    using x y nn unfolding energy_def assms(1) by argo
qed

lemma update_drift:
  assumes "\<not> (pos_x p - mx) * (pos_x p - mx) + (pos_y p - my) * (pos_y p - my)
             < MOUSE_RADIUS * MOUSE_RADIUS"
  shows "update p mx my = drift p"
proof -
  have "pos_x (spring p) = pos_x p" "pos_y (spring p) = pos_y p"
    by (simp_all add: spring_def)
  with assms have "impulse (spring p) mx my = (0, 0)"
    by (simp add: impulse_def Let_def)
  then have "repel mx my (spring p) = spring p"
    by (simp add: repel_def)
  then show ?thesis by (simp add: update_steps steps_def drift_def)
qed

lemma drifts_ticks:
  assumes "drifts p ms = Some q"
  shows "quiet p ms \<and> ticks p ms = q"
  using assms
proof (induction ms arbitrary: p)
  case Nil
  then show ?case by simp
next
  case (Cons m ms)
  from Cons.prems have out: "\<not> (pos_x p - fst m) * (pos_x p - fst m) + (pos_y p - snd m) * (pos_y p - snd m)
          < MOUSE_RADIUS * MOUSE_RADIUS" and d: "drifts (drift p) ms = Some q"
    by (simp_all split: if_splits)
  from Cons.IH[OF d] out show ?case by (simp add: update_drift)
qed

text \<open>
  Claim C8, as amended, in exact arithmetic (the numbers are reals, not doubles). For a
  particle with the constructor's friction 0.9 and an ease in
  \<open>[0.05, 0.1]\<close>, a fixed target and the mouse at or beyond the radius on every tick, the
  energy is multiplied by exactly 0.9 on every tick. So after \<open>n\<close> ticks the squared
  speed is at most \<open>2 * 0.9 ^ n\<close> times the initial energy (the velocity stays bounded, by
  twice the initial energy), and the squared distance to the target is at most
  \<open>80 * 0.9 ^ n\<close> times the initial energy (the distance tends to zero).
\<close>

theorem damped_energy:
  assumes "quiet p ms" "friction p = 9 / 10" "1 / 20 \<le> ease p" "ease p \<le> 1 / 10"
  shows "energy (ticks p ms) = (9 / 10) ^ length ms * energy p
       \<and> speedSq (ticks p ms) \<le> 2 * ((9 / 10) ^ length ms * energy p)
       \<and> targetDistSq (ticks p ms) \<le> 80 * ((9 / 10) ^ length ms * energy p)
       \<and> speedSq (ticks p ms) \<le> 2 * energy p"
proof -
  let ?q = "ticks p ms"
  from energy_ticks[OF assms(1)] assms(2)
  have e: "energy ?q = (9 / 10) ^ length ms * energy p"
    and f: "friction ?q = 9 / 10" and ea: "ease ?q = ease p"
    by simp_all
  note b = energy_bounds[OF f, unfolded ea, OF assms(3,4)]
  have "(9 / 10 :: real) ^ length ms \<le> 1" by (intro power_le_one) auto
  moreover have "0 \<le> energy p" by (rule energy_bounds(3)[OF assms(2-4)])
  ultimately have "(9 / 10) ^ length ms * energy p \<le> 1 * energy p"
    by (intro mult_right_mono)
  with b(1,2) e show ?thesis by simp
qed


theorem damped_energy_witness:
  "energy (ticks resting [far, far, far]) = (9 / 10) ^ length [far, far, far] * energy resting
   \<and> speedSq (ticks resting [far, far, far]) \<le> 2 * ((9 / 10) ^ length [far, far, far] * energy resting)
   \<and> targetDistSq (ticks resting [far, far, far]) \<le> 80 * ((9 / 10) ^ length [far, far, far] * energy resting)
   \<and> speedSq (ticks resting [far, far, far]) \<le> 2 * energy resting"
proof -
  have "drifts resting [far, far, far] \<noteq> None"
    by (simp add: drift_def step_defs resting_def far_def MOUSE_RADIUS_def)
  then have "quiet resting [far, far, far]" using drifts_ticks by blast
  moreover have "friction resting = 9 / 10" "1 / 20 \<le> ease resting" "ease resting \<le> 1 / 10"
    by (simp_all add: resting_def)
  ultimately show ?thesis by (rule damped_energy)
qed

text \<open>
  Claim C8 as stated fails: the distance does not decrease tick by tick. The spring is
  underdamped; a particle released at rest 100 pixels from its target, with the mouse
  away, is within 1 pixel of the target after 8 ticks and more than 44 pixels from it
  after 14 ticks.
\<close>

theorem distance_counterexample:
  "quiet resting (replicate 14 far)
   \<and> targetDistSq (ticks resting (replicate 8 far)) < 1
   \<and> 2000 < targetDistSq (ticks resting (replicate 14 far))"
proof -
  have "case drifts resting (replicate 8 far) of None \<Rightarrow> False | Some q \<Rightarrow> targetDistSq q < 1"
    by (simp add: numeral_eq_Suc drift_def step_defs resting_def far_def MOUSE_RADIUS_def
        targetDistSq_def)
  then obtain q8 where q8: "drifts resting (replicate 8 far) = Some q8" "targetDistSq q8 < 1"
    by (auto split: option.splits)
  have "case drifts resting (replicate 14 far) of None \<Rightarrow> False | Some q \<Rightarrow> 2000 < targetDistSq q"
    by (simp add: numeral_eq_Suc drift_def step_defs resting_def far_def MOUSE_RADIUS_def
        targetDistSq_def)
  then obtain q14 where q14: "drifts resting (replicate 14 far) = Some q14" "2000 < targetDistSq q14"
    by (auto split: option.splits)
  from drifts_ticks[OF q8(1)] drifts_ticks[OF q14(1)] q8(2) q14(2)
  show ?thesis by simp
qed

end
